theory Spec2Isabelle
  imports Complex_Main
begin

section \<open>Shared data model\<close>

text \<open>
  The repository is an integration layer: \<^verbatim>\<open>client.py\<close> (class \<^verbatim>\<open>MCCN\<close>) and
  \<^verbatim>\<open>mccn.py\<close> (the older class \<^verbatim>\<open>Mccn\<close>) drive a catalog client, three modality
  loaders and the array library. Every Python exception is a value of \<open>exn\<close>; a call that
  may raise returns \<open>exn + 'a\<close> with \<open>Inl\<close> for the raised exception.

  \<open>ValueError\<close>, \<open>AttributeError\<close> and \<open>NotImplementedError\<close> are the classes the two
  files raise themselves. The spec's taxonomy calls the \<open>ValueError\<close> of \<^verbatim>\<open>get_geobox\<close>
  a ConfigurationError and the \<open>AttributeError\<close> of \<^verbatim>\<open>_load_stac\<close> an
  UnsupportedAxisLayout. \<open>CatalogUnavailable\<close>, \<open>CollectionNotFound\<close> and
  \<open>VariableConflict\<close> are the spec's names for failures of the catalog client and of the
  merge; \<open>External\<close> is any other exception raised inside a collaborator.
\<close>

datatype exn =
    ValueError string
  | AttributeError string
  | NotImplementedError string
  | CatalogUnavailable string
  | CollectionNotFound string
  | VariableConflict string
  | External string

text \<open>Opaque objects of the collaborating libraries, identified by a handle.\<close>

datatype item = Item string
datatype collection = Collection string
datatype geobox = GeoBox string
datatype client = ApiClient string | FileClient string

text \<open>\<^verbatim>\<open>shape: int | tuple[int, int] | None\<close>\<close>

datatype shape = Edge int | Dims int int

text \<open>\<^verbatim>\<open>asset_key: str | Mapping[str, str]\<close>\<close>

datatype asset_key = KeyName string | KeyMap "(string \<times> string) list"

text \<open>\<^verbatim>\<open>vector_fields: Sequence[str] | dict[str, Sequence[str]] | None\<close>\<close>

datatype vector_fields = Fields "string list" | FieldsPerItem "(string \<times> string list) list"

text \<open>
  An \<^verbatim>\<open>xarray.Dataset\<close>, as far as the two files look into one: the indexed
  coordinates (\<^verbatim>\<open>xindexes\<close>, axis name and coordinate values in insertion order) and
  the names of the data variables. Coordinate values are rationals; the code only
  takes their minimum and maximum.
\<close>

record dataset =
  coords :: "(string \<times> rat list) list"
  data_vars :: "string list"

definition empty_dataset :: dataset where
  "empty_dataset = \<lparr>coords = [], data_vars = []\<rparr>"

text \<open>The buckets of \<^verbatim>\<open>CollectionFilter\<close>: three ordered sequences of items.\<close>

record collection_filter =
  raster :: "item list"
  vector :: "item list"
  point :: "item list"

section \<open>client.py: the session class MCCN\<close>

text \<open>The attributes \<^verbatim>\<open>__init__\<close> assigns (lines 46-68), in the order of assignment.\<close>

record MCCN =
  endpoint :: string
  collection_id :: string
  collection :: collection
  shape :: "shape option"
  geobox :: geobox
  asset_key :: asset_key
  collection_filter :: collection_filter
  x_col :: string
  y_col :: string
  t_col :: string
  bands :: "string list option"
  groupby :: string
  vector_fields :: "vector_fields option"
  alias_renaming :: "(string \<times> string \<times> string) list option"
  point_fields :: "string list option"
  merge_method :: string
  interp_method :: "string option"

text \<open>The parameters of \<^verbatim>\<open>__init__\<close> (lines 24-45).\<close>

record mccn_args =
  endpoint_arg :: string
  collection_id_arg :: string
  geobox_arg :: "geobox option"
  shape_arg :: "shape option"
  asset_key_arg :: asset_key
  x_col_arg :: string
  y_col_arg :: string
  t_col_arg :: string
  bands_arg :: "string list option"
  groupby_arg :: string
  vector_fields_arg :: "vector_fields option"
  alias_renaming_arg :: "(string \<times> string \<times> string) list option"
  point_fields_arg :: "string list option"
  merge_method_arg :: string
  interp_method_arg :: "string option"

text \<open>
  The collaborators \<^verbatim>\<open>client.py\<close> imports and calls: the catalog client
  (\<^verbatim>\<open>pystac_client\<close>), \<^verbatim>\<open>GeoBoxBuilder.from_collection\<close>, the constructor of
  \<^verbatim>\<open>CollectionFilter\<close>, the three loaders and \<^verbatim>\<open>xr.merge\<close>. None of them is defined in
  the two files; each is a parameter, a function from its arguments to the value it
  returns or the exception it raises.
\<close>

record env =
  client_open :: "string \<Rightarrow> exn + client"
  client_from_file :: "string \<Rightarrow> exn + client"
  client_get_collection :: "client \<Rightarrow> string \<Rightarrow> exn + collection"
  geobox_from_collection :: "collection \<Rightarrow> shape \<Rightarrow> exn + geobox"
  new_collection_filter :: "collection \<Rightarrow> geobox \<Rightarrow> asset_key \<Rightarrow> exn + collection_filter"
  stac_load_raster ::
    "item list \<Rightarrow> geobox \<Rightarrow> string list option \<Rightarrow> string \<Rightarrow> string \<Rightarrow> string \<Rightarrow> exn + dataset"
  stac_load_vector ::
    "item list \<Rightarrow> geobox \<Rightarrow> string \<Rightarrow> vector_fields option \<Rightarrow> string \<Rightarrow> string \<Rightarrow> asset_key
       \<Rightarrow> (string \<times> string \<times> string) list option \<Rightarrow> exn + dataset"
  stac_load_point ::
    "item list \<Rightarrow> geobox \<Rightarrow> asset_key \<Rightarrow> string list option \<Rightarrow> string \<Rightarrow> string \<Rightarrow> string
       \<Rightarrow> string \<Rightarrow> string option \<Rightarrow> exn + dataset"
  xr_merge :: "dataset list \<Rightarrow> exn + dataset"

text \<open>
  Every call of a collaborator is logged with its arguments, so that claims about
  which calls are made, in which order and with which arguments can be stated.
\<close>

datatype event =
    ClientOpen string
  | ClientFromFile string
  | GetCollection client string
  | GeoBoxFromCollection collection shape
  | NewCollectionFilter collection geobox asset_key
  | StacLoadRaster "item list" geobox "string list option" string string string
  | StacLoadVector "item list" geobox string "vector_fields option" string string asset_key
      "(string \<times> string \<times> string) list option"
  | StacLoadPoint "item list" geobox asset_key "string list option" string string string
      string "string option"
  | XrMerge "dataset list"

type_synonym 'a traced = "event list \<times> (exn + 'a)"

definition ret :: "'a \<Rightarrow> 'a traced" where
  "ret a = ([], Inr a)"

definition call :: "event \<Rightarrow> exn + 'a \<Rightarrow> 'a traced" where
  "call ev r = ([ev], r)"

text \<open>Sequencing: an exception ends the computation, the log so far is kept.\<close>

definition bind_tr :: "'a traced \<Rightarrow> ('a \<Rightarrow> 'b traced) \<Rightarrow> 'b traced" where
  "bind_tr m f =
     (case m of
        (t, Inl e) \<Rightarrow> (t, Inl e)
      | (t, Inr a) \<Rightarrow> (case f a of (t', r) \<Rightarrow> (t @ t', r)))"

text \<open>\<^verbatim>\<open>str.startswith\<close>\<close>

definition startswith :: "string \<Rightarrow> string \<Rightarrow> bool" where
  "startswith s p = (take (length p) s = p)"

text \<open>\<^verbatim>\<open>MCCN.get_collection\<close> (lines 70-79).\<close>

definition get_collection :: "env \<Rightarrow> string \<Rightarrow> string \<Rightarrow> collection traced" where
  "get_collection env ep cid =
     bind_tr
       (if startswith ep ''http''
        then call (ClientOpen ep) (client_open env ep)
        else call (ClientFromFile ep) (client_from_file env ep))
       (\<lambda>res. call (GetCollection res cid) (client_get_collection env res cid))"

text \<open>\<^verbatim>\<open>MCCN.get_geobox\<close> (lines 81-93).\<close>

definition get_geobox :: "env \<Rightarrow> collection \<Rightarrow> geobox option \<Rightarrow> shape option \<Rightarrow> geobox traced" where
  "get_geobox env c gb sh =
     (case gb of
        Some g \<Rightarrow> ret g
      | None \<Rightarrow>
          (case sh of
             None \<Rightarrow>
               ([], Inl (ValueError
                 ''If geobox is not defined, shape must be provided to calculate geobox from collection''))
           | Some s \<Rightarrow> call (GeoBoxFromCollection c s) (geobox_from_collection env c s)))"

text \<open>\<^verbatim>\<open>MCCN.__init__\<close> (lines 46-68).\<close>

definition MCCN_init :: "env \<Rightarrow> mccn_args \<Rightarrow> MCCN traced" where
  "MCCN_init env a =
     bind_tr (get_collection env (endpoint_arg a) (collection_id_arg a)) (\<lambda>c.
     bind_tr (get_geobox env c (geobox_arg a) (shape_arg a)) (\<lambda>g.
     bind_tr (call (NewCollectionFilter c g (asset_key_arg a))
                (new_collection_filter env c g (asset_key_arg a))) (\<lambda>cf.
     ret \<lparr>endpoint = endpoint_arg a,
          collection_id = collection_id_arg a,
          collection = c,
          shape = shape_arg a,
          geobox = g,
          asset_key = asset_key_arg a,
          collection_filter = cf,
          x_col = x_col_arg a,
          y_col = y_col_arg a,
          t_col = t_col_arg a,
          bands = bands_arg a,
          groupby = groupby_arg a,
          vector_fields = vector_fields_arg a,
          alias_renaming = alias_renaming_arg a,
          point_fields = point_fields_arg a,
          merge_method = merge_method_arg a,
          interp_method = interp_method_arg a\<rparr>)))"

text \<open>The three loader calls, with the arguments the source passes (lines 96-128).\<close>

definition raster_call :: "MCCN \<Rightarrow> event" where
  "raster_call s =
     StacLoadRaster (raster (collection_filter s)) (geobox s) (bands s)
       (x_col s) (y_col s) (t_col s)"

definition vector_call :: "MCCN \<Rightarrow> event" where
  "vector_call s =
     StacLoadVector (vector (collection_filter s)) (geobox s) (groupby s) (vector_fields s)
       (x_col s) (y_col s) (asset_key s) (alias_renaming s)"

definition point_call :: "MCCN \<Rightarrow> event" where
  "point_call s =
     StacLoadPoint (point (collection_filter s)) (geobox s) (asset_key s) (point_fields s)
       (x_col s) (y_col s) (t_col s) (merge_method s) (interp_method s)"

text \<open>\<^verbatim>\<open>MCCN.load_raster\<close>, \<^verbatim>\<open>MCCN.load_vector\<close>, \<^verbatim>\<open>MCCN.load_point\<close>.\<close>

definition load_raster :: "env \<Rightarrow> MCCN \<Rightarrow> dataset traced" where
  "load_raster env s =
     call
       (StacLoadRaster (raster (collection_filter s)) (geobox s) (bands s)
          (x_col s) (y_col s) (t_col s))
       (stac_load_raster env (raster (collection_filter s)) (geobox s) (bands s)
          (x_col s) (y_col s) (t_col s))"

definition load_vector :: "env \<Rightarrow> MCCN \<Rightarrow> dataset traced" where
  "load_vector env s =
     call
       (StacLoadVector (vector (collection_filter s)) (geobox s) (groupby s) (vector_fields s)
          (x_col s) (y_col s) (asset_key s) (alias_renaming s))
       (stac_load_vector env (vector (collection_filter s)) (geobox s) (groupby s)
          (vector_fields s) (x_col s) (y_col s) (asset_key s) (alias_renaming s))"

definition load_point :: "env \<Rightarrow> MCCN \<Rightarrow> dataset traced" where
  "load_point env s =
     call
       (StacLoadPoint (point (collection_filter s)) (geobox s) (asset_key s) (point_fields s)
          (x_col s) (y_col s) (t_col s) (merge_method s) (interp_method s))
       (stac_load_point env (point (collection_filter s)) (geobox s) (asset_key s)
          (point_fields s) (x_col s) (y_col s) (t_col s) (merge_method s) (interp_method s))"

text \<open>
  \<^verbatim>\<open>MCCN.load\<close> (lines 130-170). \<open>collect\<close> is the part that fills the list
  \<^verbatim>\<open>items\<close> (lines 131-169); a bucket is tested by its truth value, which for a
  sequence is being non-empty. \<open>load\<close> then hands the list to \<^verbatim>\<open>xr.merge\<close>.
\<close>

definition collect :: "env \<Rightarrow> MCCN \<Rightarrow> dataset list traced" where
  "collect env s =
     bind_tr
       (if raster (collection_filter s) \<noteq> []
        then bind_tr
               (call
                  (StacLoadRaster (raster (collection_filter s)) (geobox s) (bands s)
                     (x_col s) (y_col s) (t_col s))
                  (stac_load_raster env (raster (collection_filter s)) (geobox s) (bands s)
                     (x_col s) (y_col s) (t_col s)))
               (\<lambda>d. ret ([] @ [d]))
        else ret []) (\<lambda>items1.
     bind_tr
       (if vector (collection_filter s) \<noteq> []
        then bind_tr
               (call
                  (StacLoadVector (vector (collection_filter s)) (geobox s) (groupby s)
                     (vector_fields s) (x_col s) (y_col s) (asset_key s) (alias_renaming s))
                  (stac_load_vector env (vector (collection_filter s)) (geobox s) (groupby s)
                     (vector_fields s) (x_col s) (y_col s) (asset_key s) (alias_renaming s)))
               (\<lambda>d. ret (items1 @ [d]))
        else ret items1) (\<lambda>items2.
     (if point (collection_filter s) \<noteq> []
      then bind_tr
             (call
                (StacLoadPoint (point (collection_filter s)) (geobox s) (asset_key s)
                   (point_fields s) (x_col s) (y_col s) (t_col s) (merge_method s)
                   (interp_method s))
                (stac_load_point env (point (collection_filter s)) (geobox s) (asset_key s)
                   (point_fields s) (x_col s) (y_col s) (t_col s) (merge_method s)
                   (interp_method s)))
             (\<lambda>d. ret (items2 @ [d]))
      else ret items2)))"

definition load :: "env \<Rightarrow> MCCN \<Rightarrow> dataset traced" where
  "load env s =
     bind_tr (collect env s) (\<lambda>items. call (XrMerge items) (xr_merge env items))"

text \<open>
  None of the four public operations assigns to an attribute of \<^verbatim>\<open>self\<close>. As a
  state transformer, each returns the session it was given together with its result;
  \<open>run_ops\<close> is a caller making a sequence of calls and going on after an exception.
\<close>

datatype op = OpLoad | OpLoadRaster | OpLoadVector | OpLoadPoint

fun exec_op :: "env \<Rightarrow> MCCN \<Rightarrow> op \<Rightarrow> dataset traced \<times> MCCN" where
  "exec_op env s OpLoad = (load env s, s)"
| "exec_op env s OpLoadRaster = (load_raster env s, s)"
| "exec_op env s OpLoadVector = (load_vector env s, s)"
| "exec_op env s OpLoadPoint = (load_point env s, s)"

fun run_ops :: "env \<Rightarrow> MCCN \<Rightarrow> op list \<Rightarrow> dataset traced list \<times> MCCN" where
  "run_ops env s [] = ([], s)"
| "run_ops env s (x # xs) =
     (case exec_op env s x of
        (r, s') \<Rightarrow> (case run_ops env s' xs of (rs, s'') \<Rightarrow> (r # rs, s'')))"

subsection \<open>Reading the log\<close>

text \<open>What the collaborator answered to a logged loader call.\<close>

fun loader_result :: "env \<Rightarrow> event \<Rightarrow> (exn + dataset) option" where
  "loader_result env (StacLoadRaster its g b x y t) = Some (stac_load_raster env its g b x y t)"
| "loader_result env (StacLoadVector its g gr vf x y ak al) =
     Some (stac_load_vector env its g gr vf x y ak al)"
| "loader_result env (StacLoadPoint its g ak pf x y t mm im) =
     Some (stac_load_point env its g ak pf x y t mm im)"
| "loader_result env _ = None"

fun is_raster_call :: "event \<Rightarrow> bool" where
  "is_raster_call (StacLoadRaster its g b x y t) = True"
| "is_raster_call _ = False"

fun is_vector_call :: "event \<Rightarrow> bool" where
  "is_vector_call (StacLoadVector its g gr vf x y ak al) = True"
| "is_vector_call _ = False"

fun is_point_call :: "event \<Rightarrow> bool" where
  "is_point_call (StacLoadPoint its g ak pf x y t mm im) = True"
| "is_point_call _ = False"

definition is_loader_call :: "event \<Rightarrow> bool" where
  "is_loader_call ev = (is_raster_call ev \<or> is_vector_call ev \<or> is_point_call ev)"

fun is_catalog_call :: "event \<Rightarrow> bool" where
  "is_catalog_call (ClientOpen ep) = True"
| "is_catalog_call (ClientFromFile ep) = True"
| "is_catalog_call (GetCollection c cid) = True"
| "is_catalog_call _ = False"

definition loader_fails :: "env \<Rightarrow> event \<Rightarrow> bool" where
  "loader_fails env ev = (case loader_result env ev of Some (Inl e) \<Rightarrow> True | _ \<Rightarrow> False)"

text \<open>
  The calls the merge orchestrator of the spec makes (section 4.5): one loader call
  for each non-empty bucket, in the order raster, vector, point.
\<close>

definition expected_calls :: "MCCN \<Rightarrow> event list" where
  "expected_calls s =
     (if raster (collection_filter s) \<noteq> [] then [raster_call s] else []) @
     (if vector (collection_filter s) \<noteq> [] then [vector_call s] else []) @
     (if point (collection_filter s) \<noteq> [] then [point_call s] else [])"

text \<open>A list of calls, cut after the first one that fails.\<close>

fun until_failure :: "env \<Rightarrow> event list \<Rightarrow> event list" where
  "until_failure env [] = []"
| "until_failure env (ev # evs) =
     (if loader_fails env ev then [ev] else ev # until_failure env evs)"

text \<open>
  \<open>load\<close> written with the three standalone operations, for comparison with the
  source's \<open>load\<close>, which repeats their bodies.
\<close>

definition collect_standalone :: "env \<Rightarrow> MCCN \<Rightarrow> dataset list traced" where
  "collect_standalone env s =
     bind_tr
       (if raster (collection_filter s) \<noteq> []
        then bind_tr (load_raster env s) (\<lambda>d. ret [d]) else ret []) (\<lambda>items1.
     bind_tr
       (if vector (collection_filter s) \<noteq> []
        then bind_tr (load_vector env s) (\<lambda>d. ret (items1 @ [d])) else ret items1) (\<lambda>items2.
     (if point (collection_filter s) \<noteq> []
      then bind_tr (load_point env s) (\<lambda>d. ret (items2 @ [d])) else ret items2)))"

subsection \<open>The collaborators as the spec describes them\<close>

text \<open>
  Modelled from the spec: \<^verbatim>\<open>xr.merge\<close> is a function of the array library and is not
  part of the repository's files. Section 4.5: "combine all collected structures
  into one using an outer-join-on-coordinates policy - axes with matching names and
  overlapping values are unified; data variables from different sources are kept
  side by side; no two sources may define the same data-variable name (if they do,
  merge fails with VariableConflict)", and the merge of no structure is the empty
  structure.
\<close>

fun join_axis :: "string \<times> rat list \<Rightarrow> (string \<times> rat list) list \<Rightarrow> (string \<times> rat list) list" where
  "join_axis (n, vs) [] = [(n, vs)]"
| "join_axis (n, vs) ((m, ws) # cs) =
     (if n = m then (m, ws @ filter (\<lambda>v. v \<notin> set ws) vs) # cs
      else (m, ws) # join_axis (n, vs) cs)"

text \<open>
  Modelled from the spec: the outer join of two coordinate sets of the absent
  \<^verbatim>\<open>xr.merge\<close>; an axis of the same name is unified, its values are those of both.
\<close>

definition join_coords ::
  "(string \<times> rat list) list \<Rightarrow> (string \<times> rat list) list \<Rightarrow> (string \<times> rat list) list" where
  "join_coords a b = fold join_axis b a"

text \<open>
  Modelled from the spec: the data-variable names two sources of the absent
  \<^verbatim>\<open>xr.merge\<close> both define.
\<close>

definition shared_vars :: "dataset \<Rightarrow> dataset \<Rightarrow> string list" where
  "shared_vars a b = filter (\<lambda>n. n \<in> set (data_vars b)) (data_vars a)"

text \<open>
  Modelled from the spec: the absent \<^verbatim>\<open>xr.merge\<close>, one source after the other; a
  source that defines a name already present fails with VariableConflict, otherwise
  its variables are kept beside the others.
\<close>

fun merge_into :: "dataset \<Rightarrow> dataset list \<Rightarrow> exn + dataset" where
  "merge_into acc [] = Inr acc"
| "merge_into acc (d # ds) =
     (case shared_vars acc d of
        n # ns \<Rightarrow> Inl (VariableConflict n)
      | [] \<Rightarrow>
          merge_into
            \<lparr>coords = join_coords (coords acc) (coords d),
             data_vars = data_vars acc @ data_vars d\<rparr> ds)"

text \<open>
  Modelled from the spec: the absent \<^verbatim>\<open>xr.merge\<close> on a list of structures, starting
  from the empty structure.
\<close>

definition merge_spec :: "dataset list \<Rightarrow> exn + dataset" where
  "merge_spec ds = merge_into empty_dataset ds"

definition with_merge_spec :: "env \<Rightarrow> env" where
  "with_merge_spec env = env\<lparr>xr_merge := merge_spec\<rparr>"

text \<open>
  Modelled from the spec: the catalog client (\<^verbatim>\<open>pystac_client.Client\<close>) is a library
  outside the repository's files. Section 4.1: the resolver "signals a
  CatalogUnavailable error if the endpoint cannot be opened, and CollectionNotFound
  if the identifier is absent". A \<open>catalogs\<close> value is what exists outside the
  program: the catalogs that answer at a remote address, the catalog files on disk,
  each with its collections by identifier.
\<close>

record catalogs =
  remote :: "(string \<times> (string \<times> collection) list) list"
  files :: "(string \<times> (string \<times> collection) list) list"

text \<open>
  Modelled from the spec: the absent \<^verbatim>\<open>pystac_client.Client.open\<close>; an address at
  which no catalog answers cannot be opened.
\<close>

definition open_spec :: "catalogs \<Rightarrow> string \<Rightarrow> exn + client" where
  "open_spec w ep =
     (case map_of (remote w) ep of
        None \<Rightarrow> Inl (CatalogUnavailable ep)
      | Some cat \<Rightarrow> Inr (ApiClient ep))"

text \<open>
  Modelled from the spec: the absent \<^verbatim>\<open>pystac_client.Client.from_file\<close>; a path at
  which there is no catalog file cannot be opened.
\<close>

definition from_file_spec :: "catalogs \<Rightarrow> string \<Rightarrow> exn + client" where
  "from_file_spec w ep =
     (case map_of (files w) ep of
        None \<Rightarrow> Inl (CatalogUnavailable ep)
      | Some cat \<Rightarrow> Inr (FileClient ep))"

fun catalog_of :: "catalogs \<Rightarrow> client \<Rightarrow> (string \<times> collection) list option" where
  "catalog_of w (ApiClient ep) = map_of (remote w) ep"
| "catalog_of w (FileClient ep) = map_of (files w) ep"

text \<open>
  Modelled from the spec: the absent \<^verbatim>\<open>Client.get_collection\<close>; an identifier the
  catalog does not have is signalled as CollectionNotFound.
\<close>

definition get_collection_spec :: "catalogs \<Rightarrow> client \<Rightarrow> string \<Rightarrow> exn + collection" where
  "get_collection_spec w c cid =
     (case catalog_of w c of
        None \<Rightarrow> Inl (CollectionNotFound cid)
      | Some cat \<Rightarrow>
          (case map_of cat cid of
             None \<Rightarrow> Inl (CollectionNotFound cid)
           | Some col \<Rightarrow> Inr col))"

definition with_catalog_spec :: "catalogs \<Rightarrow> env \<Rightarrow> env" where
  "with_catalog_spec w env =
     env\<lparr>client_open := open_spec w,
         client_from_file := from_file_spec w,
         client_get_collection := get_collection_spec w\<rparr>"

text \<open>
  The endpoint as the resolver reaches it: \<^verbatim>\<open>get_collection\<close> opens an endpoint
  that starts with "http" as a remote catalog and any other as a catalog file.
\<close>

definition reachable :: "catalogs \<Rightarrow> string \<Rightarrow> (string \<times> collection) list option" where
  "reachable w ep =
     (if startswith ep ''http'' then map_of (remote w) ep else map_of (files w) ep)"

section \<open>mccn.py: the older class Mccn\<close>

text \<open>The attributes \<^verbatim>\<open>Mccn.__init__\<close> assigns (lines 22-25).\<close>

record Mccn =
  stac_client :: client
  lat_count :: "int option"
  lon_count :: "int option"
  bbox :: "rat list option"

text \<open>
  The collaborators of \<^verbatim>\<open>mccn.py\<close>: the catalog client and its search,
  \<^verbatim>\<open>odc.stac.stac_load\<close>, the vector loader, the WCS importer with
  \<^verbatim>\<open>rioxarray.open_rasterio\<close>, and the array library. \<open>align_dem\<close> stands for the
  chain of array-library calls on lines 117-131 (rename, interp, expand_dims,
  squeeze, to_dataset), which takes the DEM array and the loaded dataset.
\<close>

record legacy_env =
  stac_open :: "string \<Rightarrow> exn + client"
  search_items :: "client \<Rightarrow> string \<Rightarrow> exn + item list"
  stac_load ::
    "item list \<Rightarrow> string list option \<Rightarrow> string \<Rightarrow> (string \<times> nat) list option \<Rightarrow> string option
       \<Rightarrow> geobox option \<Rightarrow> exn + dataset"
  mask_load_vector :: "item list \<Rightarrow> geobox option \<Rightarrow> exn + dataset"
  wcs_get_data :: "string \<Rightarrow> rat list option \<Rightarrow> string option \<Rightarrow> exn + string"
  open_rasterio :: "string \<Rightarrow> exn + dataset"
  align_dem :: "dataset \<Rightarrow> dataset \<Rightarrow> exn + dataset"
  combine_by_coords :: "dataset list \<Rightarrow> exn + dataset"

definition bind_exn :: "exn + 'a \<Rightarrow> ('a \<Rightarrow> exn + 'b) \<Rightarrow> exn + 'b" where
  "bind_exn m f = (case m of Inl e \<Rightarrow> Inl e | Inr a \<Rightarrow> f a)"

text \<open>\<^verbatim>\<open>Mccn.__init__\<close> (lines 18-25).\<close>

definition Mccn_init :: "legacy_env \<Rightarrow> string \<Rightarrow> exn + Mccn" where
  "Mccn_init env stac_url =
     bind_exn (stac_open env stac_url) (\<lambda>c.
       Inr \<lparr>stac_client = c, lat_count = None, lon_count = None, bbox = None\<rparr>)"

text \<open>\<^verbatim>\<open>Mccn._query\<close> (lines 27-30).\<close>

definition Mccn_query :: "legacy_env \<Rightarrow> Mccn \<Rightarrow> string \<Rightarrow> exn + item list" where
  "Mccn_query env self col_id = search_items env (stac_client self) col_id"

text \<open>\<^verbatim>\<open>name in xx.xindexes\<close>\<close>

definition in_xindexes :: "string \<Rightarrow> dataset \<Rightarrow> bool" where
  "in_xindexes n xx = (n \<in> set (map fst (coords xx)))"

text \<open>
  \<^verbatim>\<open>xx.<name>.min().item()\<close> and \<^verbatim>\<open>xx.<name>.max().item()\<close>: attribute access
  raises AttributeError for a name the dataset does not have, and the reduction of
  an axis of length zero raises ValueError.
\<close>

definition coord_min :: "dataset \<Rightarrow> string \<Rightarrow> exn + rat" where
  "coord_min xx n =
     (case map_of (coords xx) n of
        None \<Rightarrow> Inl (AttributeError n)
      | Some [] \<Rightarrow> Inl (ValueError ''zero-size array to reduction operation minimum'')
      | Some (v # vs) \<Rightarrow> Inr (fold min vs v))"

definition coord_max :: "dataset \<Rightarrow> string \<Rightarrow> exn + rat" where
  "coord_max xx n =
     (case map_of (coords xx) n of
        None \<Rightarrow> Inl (AttributeError n)
      | Some [] \<Rightarrow> Inl (ValueError ''zero-size array to reduction operation maximum'')
      | Some (v # vs) \<Rightarrow> Inr (fold max vs v))"

text \<open>Lines 50-62 of \<^verbatim>\<open>_load_stac\<close>: the bounding box of the loaded dataset.\<close>

definition spatial_bounds :: "dataset \<Rightarrow> exn + rat list" where
  "spatial_bounds xx =
     (if in_xindexes ''x'' xx \<and> in_xindexes ''y'' xx then
        bind_exn (coord_min xx ''x'') (\<lambda>min_lon.
        bind_exn (coord_max xx ''x'') (\<lambda>max_lon.
        bind_exn (coord_min xx ''y'') (\<lambda>min_lat.
        bind_exn (coord_max xx ''y'') (\<lambda>max_lat.
          Inr [min_lon, min_lat, max_lon, max_lat]))))
      else if in_xindexes ''longitude'' xx \<and> in_xindexes ''latitude'' xx then
        bind_exn (coord_min xx ''longitude'') (\<lambda>min_lon.
        bind_exn (coord_max xx ''longitude'') (\<lambda>max_lon.
        bind_exn (coord_min xx ''latitude'') (\<lambda>min_lat.
        bind_exn (coord_max xx ''latitude'') (\<lambda>max_lat.
          Inr [min_lon, min_lat, max_lon, max_lat]))))
      else
        Inl (AttributeError
          ''Spatial axes must contain either x and y or longitude and latitude.''))"

text \<open>
  \<^verbatim>\<open>Mccn._load_stac\<close> (lines 32-64). It returns its result and the object after the
  call: line 63 assigns \<^verbatim>\<open>self.bbox\<close>. The progress output and the worker pool
  handed to \<^verbatim>\<open>stac_load\<close> are left out.
\<close>

definition Mccn_load_stac ::
  "legacy_env \<Rightarrow> Mccn \<Rightarrow> string \<Rightarrow> string list option \<Rightarrow> string \<Rightarrow> string option
     \<Rightarrow> geobox option \<Rightarrow> bool \<Rightarrow> (exn + dataset) \<times> Mccn" where
  "Mccn_load_stac env self col_id bnds grp crs gbox lazy =
     (let chunks = (if lazy then Some [(''x'', 2048), (''y'', 2048)] else None) in
      case bind_exn (Mccn_query env self col_id)
             (\<lambda>its. stac_load env its bnds grp chunks crs gbox) of
        Inl e \<Rightarrow> (Inl e, self)
      | Inr xx \<Rightarrow>
          (case spatial_bounds xx of
             Inl e \<Rightarrow> (Inl e, self)
           | Inr bb \<Rightarrow> (Inr xx, self\<lparr>bbox := Some bb\<rparr>)))"

text \<open>\<^verbatim>\<open>Mccn.load_public\<close> (lines 66-70).\<close>

definition Mccn_load_public ::
  "legacy_env \<Rightarrow> string \<Rightarrow> rat list option \<Rightarrow> string option \<Rightarrow> exn + dataset" where
  "Mccn_load_public env source bb layername =
     bind_exn (wcs_get_data env source bb layername) (\<lambda>response. open_rasterio env response)"

text \<open>
  The loop of \<^verbatim>\<open>Mccn.load\<close> over \<^verbatim>\<open>source.items()\<close> (lines 112-132); the
  dictionary is the list of its entries in insertion order. The message is the one
  the two adjacent string literals of lines 114-115 make.
\<close>

fun stack_sources ::
  "legacy_env \<Rightarrow> rat list option \<Rightarrow> dataset \<Rightarrow> (string \<times> string) list \<Rightarrow> exn + dataset" where
  "stack_sources env bb xx [] = Inr xx"
| "stack_sources env bb xx ((source_name, layer_name) # rest) =
     (if source_name \<noteq> ''dem'' then
        Inl (NotImplementedError
          (''Datacube stacking for '' @ source_name @ '' has not beenimplemented.''))
      else
        (case bind_exn (Mccn_load_public env source_name bb (Some layer_name)) (\<lambda>yy.
              bind_exn (align_dem env yy xx) (\<lambda>yy'.
              combine_by_coords env [xx, yy'])) of
           Inl e \<Rightarrow> Inl e
         | Inr xx' \<Rightarrow> stack_sources env bb xx' rest))"

text \<open>
  \<^verbatim>\<open>Mccn.load\<close> (lines 85-134). \<open>msk\<close> is the truth value of the argument
  \<^verbatim>\<open>mask\<close>; the vector array loaded for a mask is not used (line 108).
\<close>

definition Mccn_load ::
  "legacy_env \<Rightarrow> Mccn \<Rightarrow> string \<Rightarrow> string list option \<Rightarrow> string \<Rightarrow> string option
     \<Rightarrow> geobox option \<Rightarrow> bool \<Rightarrow> (string \<times> string) list option \<Rightarrow> bool
     \<Rightarrow> (exn + dataset) \<times> Mccn" where
  "Mccn_load env self col_id bnds grp crs gbox lazy source msk =
     (case Mccn_load_stac env self col_id bnds grp crs gbox lazy of
        (Inl e, self') \<Rightarrow> (Inl e, self')
      | (Inr xx, self') \<Rightarrow>
          (case (if msk
                 then bind_exn (Mccn_query env self' col_id)
                        (\<lambda>its. mask_load_vector env its gbox)
                 else Inr xx) of
             Inl e \<Rightarrow> (Inl e, self')
           | Inr vector_array \<Rightarrow>
               (case source of
                  None \<Rightarrow> (Inr xx, self')
                | Some src \<Rightarrow> (stack_sources env (bbox self') xx src, self'))))"

section \<open>Concrete sessions and environments\<close>

text \<open>Small inputs on which the theorems below are evaluated.\<close>

definition ds_red :: dataset where
  "ds_red = \<lparr>coords = [(''x'', [0, 1]), (''y'', [0, 1])], data_vars = [''red'']\<rparr>"

definition ds_roads :: dataset where
  "ds_roads = \<lparr>coords = [(''x'', [0, 1]), (''y'', [0, 1])], data_vars = [''roads'']\<rparr>"

definition ds_temp :: dataset where
  "ds_temp = \<lparr>coords = [(''x'', [0, 1]), (''y'', [0, 1])], data_vars = [''temp'']\<rparr>"

definition ds_time_only :: dataset where
  "ds_time_only = \<lparr>coords = [(''time'', [0])], data_vars = [''red'']\<rparr>"

definition cf_all :: collection_filter where
  "cf_all = \<lparr>raster = [Item ''r1''], vector = [Item ''v1''], point = [Item ''p1'']\<rparr>"

definition cf_rv :: collection_filter where
  "cf_rv = \<lparr>raster = [Item ''r1''], vector = [Item ''v1''], point = []\<rparr>"

definition cf_none :: collection_filter where
  "cf_none = \<lparr>raster = [], vector = [], point = []\<rparr>"

definition session_with :: "collection_filter \<Rightarrow> MCCN" where
  "session_with cf =
     \<lparr>endpoint = ''http://stac.example'',
      collection_id = ''c1'',
      collection = Collection ''c1'',
      shape = None,
      geobox = GeoBox ''g'',
      asset_key = KeyName ''data'',
      collection_filter = cf,
      x_col = ''x'',
      y_col = ''y'',
      t_col = ''time'',
      bands = None,
      groupby = ''id'',
      vector_fields = None,
      alias_renaming = None,
      point_fields = None,
      merge_method = ''mean'',
      interp_method = Some ''nearest''\<rparr>"

definition args_no_frame :: mccn_args where
  "args_no_frame =
     \<lparr>endpoint_arg = ''http://stac.example'',
      collection_id_arg = ''c1'',
      geobox_arg = None,
      shape_arg = None,
      asset_key_arg = KeyName ''data'',
      x_col_arg = ''x'',
      y_col_arg = ''y'',
      t_col_arg = ''time'',
      bands_arg = None,
      groupby_arg = ''id'',
      vector_fields_arg = None,
      alias_renaming_arg = None,
      point_fields_arg = None,
      merge_method_arg = ''mean'',
      interp_method_arg = Some ''nearest''\<rparr>"

definition env_ok :: env where
  "env_ok =
     \<lparr>client_open = (\<lambda>ep. Inr (ApiClient ep)),
      client_from_file = (\<lambda>ep. Inr (FileClient ep)),
      client_get_collection = (\<lambda>c cid. Inr (Collection cid)),
      geobox_from_collection = (\<lambda>c sh. Inr (GeoBox ''derived'')),
      new_collection_filter = (\<lambda>c g k. Inr cf_all),
      stac_load_raster = (\<lambda>its g b x y t. Inr ds_red),
      stac_load_vector = (\<lambda>its g gr vf x y ak al. Inr ds_roads),
      stac_load_point = (\<lambda>its g ak pf x y t mm im. Inr ds_temp),
      xr_merge = merge_spec\<rparr>"

definition env_raster_fails :: env where
  "env_raster_fails =
     env_ok\<lparr>stac_load_raster := (\<lambda>its g b x y t. Inl (External ''LoadError''))\<rparr>"

definition env_clash :: env where
  "env_clash =
     env_ok\<lparr>stac_load_vector := (\<lambda>its g gr vf x y ak al. Inr ds_red)\<rparr>"

definition env_clash_point_fails :: env where
  "env_clash_point_fails =
     env_clash\<lparr>stac_load_point := (\<lambda>its g ak pf x y t mm im. Inl (External ''LoadError''))\<rparr>"

definition world0 :: catalogs where
  "world0 =
     \<lparr>remote = [(''http://stac.example'', [(''c1'', Collection ''c1'')])],
      files = [(''catalog.json'', [(''c2'', Collection ''c2'')])]\<rparr>"

definition lenv_ok :: legacy_env where
  "lenv_ok =
     \<lparr>stac_open = (\<lambda>url. Inr (ApiClient url)),
      search_items = (\<lambda>c col. Inr [Item ''i1'']),
      stac_load = (\<lambda>its b gr ch crs g. Inr ds_red),
      mask_load_vector = (\<lambda>its g. Inr ds_roads),
      wcs_get_data = (\<lambda>src bb layer. Inr ''tiff''),
      open_rasterio = (\<lambda>bytes. Inr ds_temp),
      align_dem = (\<lambda>yy xx. Inr \<lparr>coords = coords xx, data_vars = [''elevation'']\<rparr>),
      combine_by_coords = merge_spec\<rparr>"

definition lenv_time_only :: legacy_env where
  "lenv_time_only = lenv_ok\<lparr>stac_load := (\<lambda>its b gr ch crs g. Inr ds_time_only)\<rparr>"

definition self0 :: Mccn where
  "self0 =
     \<lparr>stac_client = ApiClient ''http://stac.example'',
      lat_count = None, lon_count = None, bbox = None\<rparr>"

section \<open>Properties of MCCN.load\<close>

lemmas tr_defs = bind_tr_def call_def ret_def
lemmas call_defs = raster_call_def vector_call_def point_call_def
lemmas example_defs =
  env_ok_def env_raster_fails_def env_clash_def env_clash_point_fails_def
  session_with_def cf_all_def cf_rv_def cf_none_def ds_red_def ds_roads_def ds_temp_def

lemma load_loader_calls:
  "filter is_loader_call (fst (load env s)) = until_failure env (expected_calls s)"
  unfolding load_def collect_def tr_defs expected_calls_def call_defs
  by (cases "stac_load_raster env (raster (collection_filter s)) (geobox s) (bands s)
               (x_col s) (y_col s) (t_col s)";
      cases "stac_load_vector env (vector (collection_filter s)) (geobox s) (groupby s)
               (vector_fields s) (x_col s) (y_col s) (asset_key s) (alias_renaming s)";
      cases "stac_load_point env (point (collection_filter s)) (geobox s) (asset_key s)
               (point_fields s) (x_col s) (y_col s) (t_col s) (merge_method s)
               (interp_method s)";
      simp add: loader_fails_def is_loader_call_def)

lemma until_failure_all_return:
  "\<forall>ev\<in>set evs. \<not> loader_fails env ev \<Longrightarrow> until_failure env evs = evs"
  by (induction evs) auto

lemma collect_returns:
  "collect env s = (t, Inr items) \<Longrightarrow>
     t = expected_calls s \<and> length items = length (expected_calls s)"
  unfolding collect_def tr_defs expected_calls_def call_defs
  by (cases "stac_load_raster env (raster (collection_filter s)) (geobox s) (bands s)
               (x_col s) (y_col s) (t_col s)";
      cases "stac_load_vector env (vector (collection_filter s)) (geobox s) (groupby s)
               (vector_fields s) (x_col s) (y_col s) (asset_key s) (alias_renaming s)";
      cases "stac_load_point env (point (collection_filter s)) (geobox s) (asset_key s)
               (point_fields s) (x_col s) (y_col s) (t_col s) (merge_method s)
               (interp_method s)";
      auto split: if_splits)

text \<open>
  C1. \<^verbatim>\<open>load()\<close> calls the loaders in the order raster, vector, point, one call
  for each non-empty bucket and none for an empty one, up to and including the first
  call that fails: the loader calls in its log are \<open>expected_calls\<close> cut after the first
  failure. When no call fails they are exactly \<open>expected_calls\<close>, and the list of
  collected structures has one entry for each of these calls and no other.
\<close>

theorem load_invokes_loaders_in_order:
  "filter is_loader_call (fst (load env s)) = until_failure env (expected_calls s) \<and>
   ((\<forall>ev\<in>set (expected_calls s). \<not> loader_fails env ev) \<longrightarrow>
      filter is_loader_call (fst (load env s)) = expected_calls s) \<and>
   (\<forall>t items. collect env s = (t, Inr items) \<longrightarrow>
      t = expected_calls s \<and> length items = length (expected_calls s))"
  using load_loader_calls [of env s] until_failure_all_return [of "expected_calls s" env]
    collect_returns [of env s]
  by auto

lemma expected_calls_rv: "expected_calls (session_with cf_rv) =
    [raster_call (session_with cf_rv), vector_call (session_with cf_rv)]"
  by (simp add: expected_calls_def session_with_def cf_rv_def)

lemma env_ok_no_failure: "\<not> loader_fails env_ok ev"
  by (cases ev) (simp_all add: loader_fails_def env_ok_def)

theorem load_invokes_loaders_in_order_witness:
  "\<not> loader_fails env_ok (raster_call (session_with cf_rv)) \<and>
   \<not> loader_fails env_ok (vector_call (session_with cf_rv)) \<and>
   filter is_loader_call (fst (load env_ok (session_with cf_rv))) =
     [raster_call (session_with cf_rv), vector_call (session_with cf_rv)] \<and>
   collect env_ok (session_with cf_rv) =
     ([raster_call (session_with cf_rv), vector_call (session_with cf_rv)], Inr [ds_red, ds_roads]) \<and>
   length [ds_red, ds_roads] = length (expected_calls (session_with cf_rv))"
proof -
  have nf: "\<forall>ev\<in>set (expected_calls (session_with cf_rv)). \<not> loader_fails env_ok ev"
    by (simp add: env_ok_no_failure)
  have c: "collect env_ok (session_with cf_rv) =
     ([raster_call (session_with cf_rv), vector_call (session_with cf_rv)], Inr [ds_red, ds_roads])"
    by (simp add: collect_def tr_defs call_defs session_with_def cf_rv_def env_ok_def)
  from load_invokes_loaders_in_order [of env_ok "session_with cf_rv"] nf c
  have "filter is_loader_call (fst (load env_ok (session_with cf_rv))) =
          expected_calls (session_with cf_rv)"
    and "length [ds_red, ds_roads] = length (expected_calls (session_with cf_rv))"
    by auto
  with c show ?thesis
    by (simp add: expected_calls_rv env_ok_no_failure)
qed

text \<open>
  C1, as stated for every session, fails where a loader raises: with the raster and the
  vector bucket non-empty and a raster loader that fails, \<^verbatim>\<open>load()\<close> never calls the
  vector loader.
\<close>

theorem load_skips_vector_after_raster_failure:
  "vector (collection_filter (session_with cf_rv)) \<noteq> [] \<and>
   filter is_vector_call (fst (load env_raster_fails (session_with cf_rv))) = [] \<and>
   load env_raster_fails (session_with cf_rv) =
     ([raster_call (session_with cf_rv)], Inl (External ''LoadError''))"
  by (simp add: load_def collect_def tr_defs call_defs session_with_def cf_rv_def
      env_raster_fails_def env_ok_def)


lemma collect_eq_standalone: "collect env s = collect_standalone env s"
  unfolding collect_def collect_standalone_def load_raster_def load_vector_def load_point_def
  by (cases "raster (collection_filter s) = []"; cases "vector (collection_filter s) = []";
      cases "point (collection_filter s) = []"; simp)

text \<open>
  C9. The structures \<^verbatim>\<open>load()\<close> collects are those of the standalone operations:
  collecting with \<^verbatim>\<open>load_raster\<close>, \<^verbatim>\<open>load_vector\<close> and \<^verbatim>\<open>load_point\<close> gives the same log
  (the same loader calls with the same arguments) and the same list, and each
  standalone operation is the one loader call \<open>expected_calls\<close> names for its bucket.
\<close>

theorem load_collects_standalone_results:
  "collect env s = collect_standalone env s \<and>
   load env s =
     bind_tr (collect_standalone env s) (\<lambda>items. call (XrMerge items) (xr_merge env items)) \<and>
   fst (load_raster env s) = [raster_call s] \<and>
   loader_result env (raster_call s) = Some (snd (load_raster env s)) \<and>
   fst (load_vector env s) = [vector_call s] \<and>
   loader_result env (vector_call s) = Some (snd (load_vector env s)) \<and>
   fst (load_point env s) = [point_call s] \<and>
   loader_result env (point_call s) = Some (snd (load_point env s))"
  by (simp add: collect_eq_standalone load_def load_raster_def load_vector_def load_point_def
      call_defs call_def)

text \<open>
  C6. If a loader call made by \<^verbatim>\<open>load()\<close> fails with \<open>e\<close>, then \<^verbatim>\<open>load()\<close> fails with
  the same \<open>e\<close> and returns no structure; the failed call is the last call of the log
  (no later loader, no merge) and occurs once in it (no retry).
\<close>

theorem load_propagates_loader_failure:
  "ev \<in> set (fst (load env s)) \<Longrightarrow> loader_result env ev = Some (Inl e) \<Longrightarrow>
     snd (load env s) = Inl e \<and> last (fst (load env s)) = ev \<and>
     count_list (fst (load env s)) ev = 1"
  unfolding load_def collect_def tr_defs
  by (cases "stac_load_raster env (raster (collection_filter s)) (geobox s) (bands s)
               (x_col s) (y_col s) (t_col s)";
      cases "stac_load_vector env (vector (collection_filter s)) (geobox s) (groupby s)
               (vector_fields s) (x_col s) (y_col s) (asset_key s) (alias_renaming s)";
      cases "stac_load_point env (point (collection_filter s)) (geobox s) (asset_key s)
               (point_fields s) (x_col s) (y_col s) (t_col s) (merge_method s)
               (interp_method s)";
      cases "raster (collection_filter s) = []"; cases "vector (collection_filter s) = []";
      cases "point (collection_filter s) = []"; auto)

theorem load_propagates_loader_failure_witness:
  "vector_call (session_with cf_all) \<in> set (fst (load env_clash_point_fails (session_with cf_all))) \<and>
   point_call (session_with cf_all) \<in> set (fst (load env_clash_point_fails (session_with cf_all))) \<and>
   loader_result env_clash_point_fails (point_call (session_with cf_all)) =
     Some (Inl (External ''LoadError'')) \<and>
   snd (load env_clash_point_fails (session_with cf_all)) = Inl (External ''LoadError'') \<and>
   last (fst (load env_clash_point_fails (session_with cf_all))) = point_call (session_with cf_all) \<and>
   count_list (fst (load env_clash_point_fails (session_with cf_all)))
     (point_call (session_with cf_all)) = 1"
proof -
  have t: "fst (load env_clash_point_fails (session_with cf_all)) =
      [raster_call (session_with cf_all), vector_call (session_with cf_all),
       point_call (session_with cf_all)]"
    by (simp add: load_def collect_def tr_defs call_defs example_defs)
  have m: "point_call (session_with cf_all) \<in>
      set (fst (load env_clash_point_fails (session_with cf_all)))"
    by (simp add: t)
  have r: "loader_result env_clash_point_fails (point_call (session_with cf_all)) =
      Some (Inl (External ''LoadError''))"
    by (simp add: call_defs example_defs)
  from load_propagates_loader_failure [OF m r] m r show ?thesis
    by (simp add: t)
qed

text \<open>
  C5. With the three buckets empty, \<^verbatim>\<open>load()\<close> calls no loader, merges the empty list
  and returns the empty structure without an error. The merge is the one of the spec
  (\<open>merge_spec\<close>).
\<close>

theorem load_of_empty_buckets:
  "raster (collection_filter s) = [] \<Longrightarrow> vector (collection_filter s) = [] \<Longrightarrow>
   point (collection_filter s) = [] \<Longrightarrow>
   load (with_merge_spec env) s = ([XrMerge []], Inr empty_dataset)"
  by (simp add: load_def collect_def tr_defs with_merge_spec_def merge_spec_def)

theorem load_of_empty_buckets_witness:
  "raster (collection_filter (session_with cf_none)) = [] \<and>
   vector (collection_filter (session_with cf_none)) = [] \<and>
   point (collection_filter (session_with cf_none)) = [] \<and>
   load (with_merge_spec env_raster_fails) (session_with cf_none) =
     ([XrMerge []], Inr empty_dataset)"
proof -
  have h: "raster (collection_filter (session_with cf_none)) = []"
    "vector (collection_filter (session_with cf_none)) = []"
    "point (collection_filter (session_with cf_none)) = []"
    by (simp_all add: session_with_def cf_none_def)
  from load_of_empty_buckets [OF h] h show ?thesis by simp
qed

lemma shared_vars_Nil:
  "shared_vars a b = [] \<longleftrightarrow> set (data_vars a) \<inter> set (data_vars b) = {}"
  by (auto simp: shared_vars_def filter_empty_conv)

lemma merge_into_conflict:
  "(\<exists>d\<in>set ds. set (data_vars acc) \<inter> set (data_vars d) \<noteq> {}) \<or>
   (\<exists>i j. i < j \<and> j < length ds \<and> set (data_vars (ds ! i)) \<inter> set (data_vars (ds ! j)) \<noteq> {})
   \<Longrightarrow> \<exists>n. merge_into acc ds = Inl (VariableConflict n)"
proof (induction ds arbitrary: acc)
  case Nil
  then show ?case by simp
next
  case (Cons d ds)
  show ?case
  proof (cases "shared_vars acc d")
    case (Cons n ns)
    then show ?thesis by simp
  next
    case Nil
    let ?acc = "\<lparr>coords = join_coords (coords acc) (coords d),
                 data_vars = data_vars acc @ data_vars d\<rparr>"
    have disj: "set (data_vars acc) \<inter> set (data_vars d) = {}"
      using Nil by (simp add: shared_vars_Nil)
    have "(\<exists>d'\<in>set ds. set (data_vars ?acc) \<inter> set (data_vars d') \<noteq> {}) \<or>
          (\<exists>i j. i < j \<and> j < length ds \<and>
             set (data_vars (ds ! i)) \<inter> set (data_vars (ds ! j)) \<noteq> {})"
      using Cons.prems
    proof
      assume "\<exists>d'\<in>set (d # ds). set (data_vars acc) \<inter> set (data_vars d') \<noteq> {}"
      then obtain d' where d': "d' \<in> set (d # ds)"
        "set (data_vars acc) \<inter> set (data_vars d') \<noteq> {}" by blast
      with disj have "d' \<in> set ds" by auto
      with d'(2) show ?thesis by auto
    next
      assume "\<exists>i j. i < j \<and> j < length (d # ds) \<and>
                set (data_vars ((d # ds) ! i)) \<inter> set (data_vars ((d # ds) ! j)) \<noteq> {}"
      then obtain i j where ij: "i < j" "j < length (d # ds)"
        "set (data_vars ((d # ds) ! i)) \<inter> set (data_vars ((d # ds) ! j)) \<noteq> {}" by blast
      from ij(1) obtain j' where j': "j = Suc j'" by (cases j) auto
      show ?thesis
      proof (cases i)
        case 0
        with ij j' have "j' < length ds" "set (data_vars d) \<inter> set (data_vars (ds ! j')) \<noteq> {}"
          by auto
        then have "ds ! j' \<in> set ds" "set (data_vars ?acc) \<inter> set (data_vars (ds ! j')) \<noteq> {}"
          by auto
        then show ?thesis by blast
      next
        case (Suc i')
        with ij j' have "i' < j'" "j' < length ds"
          "set (data_vars (ds ! i')) \<inter> set (data_vars (ds ! j')) \<noteq> {}" by auto
        then show ?thesis by blast
      qed
    qed
    from Cons.IH [OF this] show ?thesis using Nil by simp
  qed
qed

lemma collect_with_merge_spec: "collect (env\<lparr>xr_merge := m\<rparr>) s = collect env s"
  by (simp add: collect_def cong: if_cong)

text \<open>
  C2. When every loader \<^verbatim>\<open>load()\<close> calls returns and two of the returned structures
  have a data variable of the same name, \<^verbatim>\<open>load()\<close> fails with VariableConflict and
  returns no structure. The merge is the one of the spec (\<open>merge_spec\<close>).
\<close>

theorem load_fails_on_shared_variable:
  assumes "collect env s = (t, Inr items)"
    and "i < j" and "j < length items"
    and "set (data_vars (items ! i)) \<inter> set (data_vars (items ! j)) \<noteq> {}"
  shows "\<exists>n. load (with_merge_spec env) s = (t @ [XrMerge items], Inl (VariableConflict n))"
proof -
  from assms(2-4) obtain n where "merge_into empty_dataset items = Inl (VariableConflict n)"
    using merge_into_conflict [of items empty_dataset] by blast
  then show ?thesis
    using assms(1)
    by (simp add: load_def collect_with_merge_spec tr_defs with_merge_spec_def merge_spec_def)
qed

theorem load_fails_on_shared_variable_witness:
  "collect env_clash (session_with cf_rv) =
     ([raster_call (session_with cf_rv), vector_call (session_with cf_rv)], Inr [ds_red, ds_red]) \<and>
   (0::nat) < 1 \<and> (1::nat) < length [ds_red, ds_red] \<and>
   set (data_vars ([ds_red, ds_red] ! 0)) \<inter> set (data_vars ([ds_red, ds_red] ! 1)) = {''red''} \<and>
   load (with_merge_spec env_clash) (session_with cf_rv) =
     ([raster_call (session_with cf_rv), vector_call (session_with cf_rv),
       XrMerge [ds_red, ds_red]], Inl (VariableConflict ''red''))"
proof -
  have c: "collect env_clash (session_with cf_rv) =
     ([raster_call (session_with cf_rv), vector_call (session_with cf_rv)], Inr [ds_red, ds_red])"
    by (simp add: collect_def tr_defs call_defs session_with_def cf_rv_def env_clash_def env_ok_def)
  have i: "(0::nat) < 1" "(1::nat) < length [ds_red, ds_red]" by simp_all
  have v: "set (data_vars ([ds_red, ds_red] ! 0)) \<inter> set (data_vars ([ds_red, ds_red] ! 1)) \<noteq> {}"
    by (simp add: ds_red_def)
  from load_fails_on_shared_variable [OF c i v]
  obtain n where n: "load (with_merge_spec env_clash) (session_with cf_rv) =
      ([raster_call (session_with cf_rv), vector_call (session_with cf_rv)] @
         [XrMerge [ds_red, ds_red]], Inl (VariableConflict n))" by blast
  have "snd (load (with_merge_spec env_clash) (session_with cf_rv)) =
      Inl (VariableConflict ''red'')"
    by (simp add: load_def c collect_with_merge_spec tr_defs with_merge_spec_def merge_spec_def
        empty_dataset_def shared_vars_def join_coords_def ds_red_def)
  with n have "n = ''red''" by simp
  with n c show ?thesis by (simp add: ds_red_def)
qed

text \<open>
  C2, as stated, fails where a third loader raises: the raster and the vector loader
  both return a variable named red, the point loader fails, and \<^verbatim>\<open>load()\<close> fails with
  the point loader's error, not with VariableConflict.
\<close>

theorem load_shared_variable_masked_by_loader_failure:
  "loader_result env_clash_point_fails (raster_call (session_with cf_all)) = Some (Inr ds_red) \<and>
   loader_result env_clash_point_fails (vector_call (session_with cf_all)) = Some (Inr ds_red) \<and>
   data_vars ds_red = [''red''] \<and>
   load (with_merge_spec env_clash_point_fails) (session_with cf_all) =
     ([raster_call (session_with cf_all), vector_call (session_with cf_all),
       point_call (session_with cf_all)], Inl (External ''LoadError''))"
  by (simp add: load_def collect_def tr_defs call_defs example_defs with_merge_spec_def)

section \<open>Properties of session construction\<close>

text \<open>
  C3. Constructing a session with neither a geobox nor a shape fails: with the error
  of the catalog resolver if that fails, and otherwise with the ValueError of
  \<^verbatim>\<open>get_geobox\<close> (the spec's ConfigurationError). The catalog calls come first; no
  grid derivation, collection filter or loader call is made. \<^verbatim>\<open>get_geobox\<close> itself
  raises without calling anything.
\<close>

theorem init_without_frame_fails_after_catalog:
  "geobox_arg a = None \<Longrightarrow> shape_arg a = None \<Longrightarrow>
   (case get_collection env (endpoint_arg a) (collection_id_arg a) of
      (t, Inl e) \<Rightarrow> MCCN_init env a = (t, Inl e)
    | (t, Inr c) \<Rightarrow>
        MCCN_init env a =
          (t, Inl (ValueError
            ''If geobox is not defined, shape must be provided to calculate geobox from collection'')))
   \<and> (\<forall>ev\<in>set (fst (MCCN_init env a)). is_catalog_call ev)
   \<and> get_geobox env c (geobox_arg a) (shape_arg a) =
       ([], Inl (ValueError
         ''If geobox is not defined, shape must be provided to calculate geobox from collection''))"
  unfolding MCCN_init_def get_collection_def get_geobox_def tr_defs
  by (cases "client_open env (endpoint_arg a)"; cases "client_from_file env (endpoint_arg a)";
      auto split: sum.splits)

theorem init_without_frame_fails_after_catalog_witness:
  "geobox_arg args_no_frame = None \<and> shape_arg args_no_frame = None \<and>
   get_collection env_ok (endpoint_arg args_no_frame) (collection_id_arg args_no_frame) =
     ([ClientOpen ''http://stac.example'', GetCollection (ApiClient ''http://stac.example'') ''c1''],
      Inr (Collection ''c1'')) \<and>
   snd (MCCN_init env_ok args_no_frame) =
     Inl (ValueError
       ''If geobox is not defined, shape must be provided to calculate geobox from collection'') \<and>
   get_geobox env_ok (Collection ''c1'') (geobox_arg args_no_frame) (shape_arg args_no_frame) =
     ([], Inl (ValueError
       ''If geobox is not defined, shape must be provided to calculate geobox from collection''))"
proof -
  have h: "geobox_arg args_no_frame = None" "shape_arg args_no_frame = None"
    by (simp_all add: args_no_frame_def)
  have g: "get_collection env_ok (endpoint_arg args_no_frame) (collection_id_arg args_no_frame) =
     ([ClientOpen ''http://stac.example'', GetCollection (ApiClient ''http://stac.example'') ''c1''],
      Inr (Collection ''c1''))"
    by (simp add: get_collection_def tr_defs startswith_def args_no_frame_def env_ok_def)
  from init_without_frame_fails_after_catalog [OF h, of env_ok "Collection ''c1''"] g h
  show ?thesis by simp
qed

text \<open>
  C3, as stated, fails on the order of events: \<^verbatim>\<open>__init__\<close> resolves the collection
  (line 48) before it derives the grid (line 50), so the catalog has been opened and
  queried when the ValueError is raised.
\<close>

theorem init_without_frame_calls_catalog_first:
  "geobox_arg args_no_frame = None \<and> shape_arg args_no_frame = None \<and>
   MCCN_init env_ok args_no_frame =
     ([ClientOpen ''http://stac.example'', GetCollection (ApiClient ''http://stac.example'') ''c1''],
      Inl (ValueError
        ''If geobox is not defined, shape must be provided to calculate geobox from collection''))"
  by (simp add: MCCN_init_def get_collection_def get_geobox_def tr_defs startswith_def
      args_no_frame_def env_ok_def)

section \<open>Properties of the catalog resolver\<close>

text \<open>
  C7. With the catalog client of the spec, \<^verbatim>\<open>get_collection\<close> signals
  CatalogUnavailable for an endpoint that cannot be opened, after the one attempt to
  open it, and CollectionNotFound for an endpoint that opens and has no collection of
  the given identifier.
\<close>

theorem get_collection_signals_resolver_errors:
  "(reachable w ep = None \<longrightarrow>
      get_collection (with_catalog_spec w env) ep cid =
        ([if startswith ep ''http'' then ClientOpen ep else ClientFromFile ep],
         Inl (CatalogUnavailable ep))) \<and>
   (\<forall>cat. reachable w ep = Some cat \<longrightarrow> map_of cat cid = None \<longrightarrow>
      snd (get_collection (with_catalog_spec w env) ep cid) = Inl (CollectionNotFound cid))"
  by (auto simp: reachable_def get_collection_def with_catalog_spec_def tr_defs open_spec_def
      from_file_spec_def get_collection_spec_def split: if_splits)

theorem get_collection_signals_resolver_errors_witness:
  "reachable world0 ''http://nowhere.example'' = None \<and>
   get_collection (with_catalog_spec world0 env_ok) ''http://nowhere.example'' ''c1'' =
     ([ClientOpen ''http://nowhere.example''], Inl (CatalogUnavailable ''http://nowhere.example'')) \<and>
   reachable world0 ''catalog.json'' = Some [(''c2'', Collection ''c2'')] \<and>
   map_of [(''c2'', Collection ''c2'')] ''c1'' = None \<and>
   snd (get_collection (with_catalog_spec world0 env_ok) ''catalog.json'' ''c1'') =
     Inl (CollectionNotFound ''c1'')"
proof -
  have a: "reachable world0 ''http://nowhere.example'' = None"
    by (simp add: reachable_def world0_def startswith_def)
  have b: "reachable world0 ''catalog.json'' = Some [(''c2'', Collection ''c2'')]"
    by (simp add: reachable_def world0_def startswith_def)
  have c: "map_of [(''c2'', Collection ''c2'')] ''c1'' = None" by simp
  have s: "startswith ''http://nowhere.example'' ''http''" by (simp add: startswith_def)
  from get_collection_signals_resolver_errors [of world0 "''http://nowhere.example''" env_ok "''c1''"]
    get_collection_signals_resolver_errors [of world0 "''catalog.json''" env_ok "''c1''"] a b c s
  show ?thesis by simp
qed

section \<open>Session state\<close>

lemma exec_op_session: "snd (exec_op env s x) = s"
  by (cases x) simp_all

lemma run_ops_session: "snd (run_ops env s ops) = s"
proof (induction ops arbitrary: s)
  case Nil
  then show ?case by simp
next
  case (Cons x xs)
  obtain r s' where e: "exec_op env s x = (r, s')" by (cases "exec_op env s x")
  with exec_op_session [of env s x] have "s' = s" by simp
  with e Cons.IH [of s] show ?case by (auto split: prod.splits)
qed

lemma Mccn_load_stac_state:
  "snd (Mccn_load_stac env self col_id bnds grp crs gbox lazy) =
     self\<lparr>bbox := bbox (snd (Mccn_load_stac env self col_id bnds grp crs gbox lazy))\<rparr>"
  by (simp add: Mccn_load_stac_def Let_def split: sum.splits)

lemma Mccn_load_state:
  "snd (Mccn_load env self col_id bnds grp crs gbox lazy source msk) =
     snd (Mccn_load_stac env self col_id bnds grp crs gbox lazy)"
  by (simp add: Mccn_load_def split: prod.splits sum.splits option.splits)

text \<open>
  C4. No sequence of \<^verbatim>\<open>load\<close>, \<^verbatim>\<open>load_raster\<close>, \<^verbatim>\<open>load_vector\<close> and \<^verbatim>\<open>load_point\<close>
  calls changes a field of an \<^verbatim>\<open>MCCN\<close> session. \<^verbatim>\<open>Mccn.load\<close> of the older class
  changes no attribute other than \<^verbatim>\<open>bbox\<close>.
\<close>

theorem sessions_keep_state_except_bbox:
  "snd (run_ops env s ops) = s \<and>
   snd (Mccn_load lenv self col_id bnds grp crs gbox lazy source msk) =
     self\<lparr>bbox := bbox (snd (Mccn_load lenv self col_id bnds grp crs gbox lazy source msk))\<rparr>"
  using Mccn_load_stac_state [of lenv self col_id bnds grp crs gbox lazy]
  by (simp add: run_ops_session Mccn_load_state)

text \<open>
  C4, as stated for every public \<^verbatim>\<open>load\<close>, fails on the older class: \<^verbatim>\<open>Mccn.load\<close>
  goes through \<^verbatim>\<open>_load_stac\<close>, whose line 63 assigns \<^verbatim>\<open>self.bbox\<close>.
\<close>

theorem Mccn_load_assigns_bbox:
  "bbox self0 = None \<and>
   Mccn_load lenv_ok self0 ''c1'' None ''id'' None None False None False =
     (Inr ds_red, self0\<lparr>bbox := Some [0, 0, 1, 1]\<rparr>)"
  by (simp add: Mccn_load_def Mccn_load_stac_def Mccn_query_def spatial_bounds_def bind_exn_def
      in_xindexes_def coord_min_def coord_max_def lenv_ok_def self0_def ds_red_def)

section \<open>Properties of the older class\<close>

text \<open>
  C8. When the dataset \<^verbatim>\<open>stac_load\<close> returns has neither both of x and y nor both of
  longitude and latitude among its indexes, \<^verbatim>\<open>_load_stac\<close> and \<^verbatim>\<open>Mccn.load\<close> fail with
  the AttributeError of line 61 (the spec's UnsupportedAxisLayout) and leave the
  object unchanged.
\<close>

theorem load_stac_rejects_other_axes:
  assumes "Mccn_query env self col_id = Inr its"
    and "stac_load env its bnds grp (if lazy then Some [(''x'', 2048), (''y'', 2048)] else None)
           crs gbox = Inr xx"
    and "\<not> (in_xindexes ''x'' xx \<and> in_xindexes ''y'' xx)"
    and "\<not> (in_xindexes ''longitude'' xx \<and> in_xindexes ''latitude'' xx)"
  shows "Mccn_load_stac env self col_id bnds grp crs gbox lazy =
           (Inl (AttributeError
              ''Spatial axes must contain either x and y or longitude and latitude.''), self) \<and>
         Mccn_load env self col_id bnds grp crs gbox lazy source msk =
           (Inl (AttributeError
              ''Spatial axes must contain either x and y or longitude and latitude.''), self)"
proof -
  have b: "spatial_bounds xx = Inl (AttributeError
      ''Spatial axes must contain either x and y or longitude and latitude.'')"
    using assms(3,4) by (auto simp: spatial_bounds_def)
  have "Mccn_load_stac env self col_id bnds grp crs gbox lazy =
      (Inl (AttributeError
         ''Spatial axes must contain either x and y or longitude and latitude.''), self)"
    using assms(1,2) b by (simp add: Mccn_load_stac_def bind_exn_def)
  then show ?thesis by (simp add: Mccn_load_def)
qed

theorem load_stac_rejects_other_axes_witness:
  "Mccn_query lenv_time_only self0 ''c1'' = Inr [Item ''i1''] \<and>
   stac_load lenv_time_only [Item ''i1''] None ''id'' None None None = Inr ds_time_only \<and>
   in_xindexes ''x'' ds_time_only = False \<and> in_xindexes ''longitude'' ds_time_only = False \<and>
   Mccn_load_stac lenv_time_only self0 ''c1'' None ''id'' None None False =
     (Inl (AttributeError
        ''Spatial axes must contain either x and y or longitude and latitude.''), self0) \<and>
   Mccn_load lenv_time_only self0 ''c1'' None ''id'' None None False None False =
     (Inl (AttributeError
        ''Spatial axes must contain either x and y or longitude and latitude.''), self0)"
proof -
  have q: "Mccn_query lenv_time_only self0 ''c1'' = Inr [Item ''i1'']"
    by (simp add: Mccn_query_def lenv_time_only_def lenv_ok_def)
  have l: "stac_load lenv_time_only [Item ''i1''] None ''id''
      (if False then Some [(''x'', 2048), (''y'', 2048)] else None) None None = Inr ds_time_only"
    by (simp add: lenv_time_only_def)
  have x: "\<not> (in_xindexes ''x'' ds_time_only \<and> in_xindexes ''y'' ds_time_only)"
    and y: "\<not> (in_xindexes ''longitude'' ds_time_only \<and> in_xindexes ''latitude'' ds_time_only)"
    by (simp_all add: in_xindexes_def ds_time_only_def)
  have x': "in_xindexes ''x'' ds_time_only = False"
    "in_xindexes ''longitude'' ds_time_only = False"
    by (simp_all add: in_xindexes_def ds_time_only_def)
  from load_stac_rejects_other_axes [OF q l x y, of None False] q l x'
  show ?thesis by simp
qed

lemma stack_sources_append:
  "stack_sources env bb xx (pre @ rest) =
     bind_exn (stack_sources env bb xx pre) (\<lambda>xx'. stack_sources env bb xx' rest)"
proof (induction pre arbitrary: xx)
  case Nil
  then show ?case by (simp add: bind_exn_def)
next
  case (Cons p pre)
  obtain k l where p: "p = (k, l)" by (cases p)
  show ?case
    using Cons.IH by (simp add: p bind_exn_def split: sum.splits)
qed

lemma stack_sources_never_returns:
  "k \<in> set (map fst src) \<Longrightarrow> k \<noteq> ''dem'' \<Longrightarrow> stack_sources env bb xx src \<noteq> Inr r"
proof (induction src arbitrary: xx)
  case Nil
  then show ?case by simp
next
  case (Cons p src)
  obtain k' l where p: "p = (k', l)" by (cases p)
  show ?case
  proof (cases "k' = ''dem''")
    case True
    with Cons.prems p have "k \<in> set (map fst src)" by auto
    from Cons.IH [OF this Cons.prems(2)] show ?thesis
      using True p by (simp split: sum.splits)
  next
    case False
    then show ?thesis using p by simp
  qed
qed

text \<open>
  C10. A source name other than "dem" is never stacked: once the entries before it
  are processed, the loop of \<^verbatim>\<open>Mccn.load\<close> raises NotImplementedError at that entry;
  a call whose source mapping has such a key returns no dataset; and when
  \<^verbatim>\<open>_load_stac\<close>, the mask step and the entries before it succeed, the call raises that
  NotImplementedError.
\<close>

theorem load_accepts_only_dem:
  assumes "k \<noteq> ''dem''"
  shows "(stack_sources env bb xx pre = Inr xx' \<longrightarrow>
            stack_sources env bb xx (pre @ (k, l) # post) =
              Inl (NotImplementedError
                (''Datacube stacking for '' @ k @ '' has not beenimplemented.''))) \<and>
         (\<forall>r. fst (Mccn_load env self col_id bnds grp crs gbox lazy
                    (Some (pre @ (k, l) # post)) msk) \<noteq> Inr r) \<and>
         (Mccn_load_stac env self col_id bnds grp crs gbox lazy = (Inr xx, self') \<longrightarrow>
          (if msk then bind_exn (Mccn_query env self' col_id) (\<lambda>its. mask_load_vector env its gbox)
           else Inr xx) = Inr v \<longrightarrow>
          stack_sources env (bbox self') xx pre = Inr xx' \<longrightarrow>
            Mccn_load env self col_id bnds grp crs gbox lazy (Some (pre @ (k, l) # post)) msk =
              (Inl (NotImplementedError
                 (''Datacube stacking for '' @ k @ '' has not beenimplemented.'')), self'))"
proof -
  have a: "stack_sources env b x pre = Inr xx' \<Longrightarrow>
      stack_sources env b x (pre @ (k, l) # post) =
        Inl (NotImplementedError (''Datacube stacking for '' @ k @ '' has not beenimplemented.''))"
    for b x
    using assms by (simp add: stack_sources_append bind_exn_def)
  have "k \<in> set (map fst (pre @ (k, l) # post))" by simp
  then have n: "stack_sources env b x (pre @ (k, l) # post) \<noteq> Inr r" for b x r
    using stack_sources_never_returns assms by blast
  have b: "fst (Mccn_load env self col_id bnds grp crs gbox lazy
                 (Some (pre @ (k, l) # post)) msk) \<noteq> Inr r" for r
    using n by (simp add: Mccn_load_def split: prod.splits sum.splits)
  show ?thesis using a b by (simp add: Mccn_load_def)
qed

theorem load_accepts_only_dem_witness:
  "''slope'' \<noteq> ''dem'' \<and>
   Mccn_load_stac lenv_ok self0 ''c1'' None ''id'' None None False =
     (Inr ds_red, self0\<lparr>bbox := Some [0, 0, 1, 1]\<rparr>) \<and>
   stack_sources lenv_ok (Some [0, 0, 1, 1]) ds_red [(''dem'', ''dem1s'')] =
     Inr \<lparr>coords = [(''x'', [0, 1]), (''y'', [0, 1])], data_vars = [''red'', ''elevation'']\<rparr> \<and>
   Mccn_load lenv_ok self0 ''c1'' None ''id'' None None False
       (Some ([(''dem'', ''dem1s'')] @ (''slope'', ''s1'') # [])) False =
     (Inl (NotImplementedError ''Datacube stacking for slope has not beenimplemented.''),
      self0\<lparr>bbox := Some [0, 0, 1, 1]\<rparr>)"
proof -
  have k: "''slope'' \<noteq> ''dem''" by simp
  have s: "Mccn_load_stac lenv_ok self0 ''c1'' None ''id'' None None False =
     (Inr ds_red, self0\<lparr>bbox := Some [0, 0, 1, 1]\<rparr>)"
    by (simp add: Mccn_load_stac_def Mccn_query_def spatial_bounds_def bind_exn_def
        in_xindexes_def coord_min_def coord_max_def lenv_ok_def self0_def ds_red_def)
  have p: "stack_sources lenv_ok (bbox (self0\<lparr>bbox := Some [0, 0, 1, 1]\<rparr>)) ds_red
      [(''dem'', ''dem1s'')] =
     Inr \<lparr>coords = [(''x'', [0, 1]), (''y'', [0, 1])], data_vars = [''red'', ''elevation'']\<rparr>"
    by (simp add: Mccn_load_public_def bind_exn_def lenv_ok_def merge_spec_def empty_dataset_def
        shared_vars_def join_coords_def ds_red_def)
  have m: "(if False
            then bind_exn (Mccn_query lenv_ok (self0\<lparr>bbox := Some [0, 0, 1, 1]\<rparr>) ''c1'')
                   (\<lambda>its. mask_load_vector lenv_ok its None)
            else Inr ds_red) = Inr ds_red" by simp
  from load_accepts_only_dem [OF k, of lenv_ok _ _ _ _ "''s1''" "[]" self0 "''c1''" None "''id''"
      None None False False, THEN conjunct2, THEN conjunct2, rule_format, OF s m p]
  have "Mccn_load lenv_ok self0 ''c1'' None ''id'' None None False
       (Some ([(''dem'', ''dem1s'')] @ (''slope'', ''s1'') # [])) False =
     (Inl (NotImplementedError (''Datacube stacking for '' @ ''slope'' @
        '' has not beenimplemented.'')), self0\<lparr>bbox := Some [0, 0, 1, 1]\<rparr>)"
    by simp
  with k s p show ?thesis by simp
qed

end
